theory Spec2Isabelle
  imports Main
begin

section \<open>Data model (frontend\_kanban/src/types/index.ts)\<close>

text \<open>
  \<open>TaskStatus\<close> and \<open>TaskPriority\<close> are the string-literal unions of the source.
  Identifiers are JavaScript numbers that hold integers; \<open>string | null\<close> and optional
  fields are options.
\<close>

datatype TaskStatus = TO_DO | IN_PROGRESS | DONE

datatype TaskPriority = LOW | MEDIUM | HIGH

record Task =
  task_id :: int
  title :: string
  description :: string
  project :: int
  project_name :: string
  status :: TaskStatus
  priority :: TaskPriority
  assigned_to :: "int option"
  assigned_to_username :: "string option"
  due_date :: "string option"
  created_at :: string
  updated_at :: string
  comments_count :: "int option"

record UpdateTaskData =
  upd_title :: "string option"
  upd_description :: "string option"
  upd_status :: "TaskStatus option"
  upd_priority :: "TaskPriority option"
  upd_assigned_to :: "int option"
  upd_due_date :: "string option"

text \<open>The object literal \<open>{ status: newStatus }\<close>: every other optional field is absent.\<close>

definition status_only :: "TaskStatus \<Rightarrow> UpdateTaskData" where
  "status_only s =
     \<lparr>upd_title = None, upd_description = None, upd_status = Some s,
      upd_priority = None, upd_assigned_to = None, upd_due_date = None\<rparr>"

section \<open>Task board state (components/kanban/KanbanBoard.tsx)\<close>

text \<open>
  The \<open>useState\<close> cells of the component. Every handler below reads \<open>tasks\<close> from the
  render it was created in; the component re-renders after each state update, so a
  handler that starts on board \<open>b\<close> sees \<open>tasks b\<close>. The functional updates
  \<open>setTasks(prev => ...)\<close> act on the state at the moment they run, which for the code
  after an \<open>await\<close> is the board at the time the promise settles.
\<close>

record Board =
  tasks :: "Task list"
  loading :: bool
  error :: string
  activeTask :: "Task option"
  showCreateTaskModal :: bool
  showTaskDetailsModal :: bool
  selectedTask :: "Task option"

text \<open>
  Errors a promise can reject with: an Axios error with the HTTP status of the response
  (none when no response arrived), or a \<open>TypeError\<close> raised by the client's own code.
\<close>

datatype api_error = AxiosError "nat option" | TypeError

text \<open>The calls the board issues to the API client.\<close>

datatype api_call =
    UpdateTask int UpdateTaskData
  | DeleteTask int
  | GetProjectTasks int

text \<open>
  An async handler runs up to its \<open>await\<close> and is then suspended: \<open>Await c k\<close> carries
  the call that was issued and the variables the rest of the handler has captured;
  \<open>Returned\<close> means that the handler finished without awaiting.
\<close>

datatype 'k suspended = Returned | Await api_call 'k

text \<open>
  The user-visible messages. The accented letters are written as their code points
  (\<open>0xE0\<close> a grave, \<open>0xE2\<close> a circumflex).
\<close>

definition err_update :: string where
  "err_update = ''Erreur lors de la mise '' @ [CHR 0xE0] @ '' jour de la t'' @ [CHR 0xE2] @ ''che''"

definition err_load :: string where
  "err_load = ''Erreur lors du chargement des t'' @ [CHR 0xE2] @ ''ches''"

definition err_delete :: string where
  "err_delete = ''Erreur lors de la suppression de la t'' @ [CHR 0xE2] @ ''che''"

subsection \<open>handleDragEnd\<close>

text \<open>
  \<open>over\<close> is null when the drop is outside every droppable; otherwise \<open>over.id\<close> is read
  at the type the source casts it to, \<open>TaskStatus\<close>.
\<close>

record DragEndEvent =
  active_id :: int
  over_id :: "TaskStatus option"

text \<open>The variables of a move handler that are live after its \<open>await\<close>.\<close>

record MoveClosure =
  c_taskId :: int
  c_newStatus :: TaskStatus
  c_task :: Task

definition handleDragEnd :: "DragEndEvent \<Rightarrow> Board \<Rightarrow> Board \<times> MoveClosure suspended" where
  "handleDragEnd event b =
     (let b0 = b\<lparr>activeTask := None\<rparr> in
      case over_id event of
        None \<Rightarrow> (b0, Returned)
      | Some newStatus \<Rightarrow>
          (let taskId = active_id event in
           case find (\<lambda>t. task_id t = taskId) (tasks b) of
             None \<Rightarrow> (b0, Returned)
           | Some task \<Rightarrow>
               if status task = newStatus then (b0, Returned)
               else
                 (b0\<lparr>tasks := map (\<lambda>t. if task_id t = taskId then t\<lparr>status := newStatus\<rparr> else t)
                                 (tasks b0)\<rparr>,
                  Await (UpdateTask taskId (status_only newStatus))
                        \<lparr>c_taskId = taskId, c_newStatus = newStatus, c_task = task\<rparr>)))"

text \<open>
  The rest of \<open>handleDragEnd\<close>, run when \<open>apiClient.updateTask\<close> settles: nothing on
  success, the \<open>catch\<close> block on rejection.
\<close>

fun handleDragEnd_settled :: "MoveClosure \<Rightarrow> api_error + Task \<Rightarrow> Board \<Rightarrow> Board" where
  "handleDragEnd_settled c (Inr _) b = b"
| "handleDragEnd_settled c (Inl err) b =
     b\<lparr>tasks := map (\<lambda>t. if task_id t = c_taskId c then t\<lparr>status := status (c_task c)\<rparr> else t)
                    (tasks b),
       error := err_update\<rparr>"

subsection \<open>handleTaskMove\<close>

text \<open>
  \<open>tasks\<close> is always an array (every \<open>setTasks\<close> of the component stores one), so the
  guard \<open>Array.isArray(tasks)\<close> is true and the handler searches the collection.
\<close>

definition handleTaskMove :: "int \<Rightarrow> TaskStatus \<Rightarrow> Board \<Rightarrow> Board \<times> MoveClosure suspended" where
  "handleTaskMove taskId newStatus b =
     (case find (\<lambda>t. task_id t = taskId) (tasks b) of
        None \<Rightarrow> (b, Returned)
      | Some task \<Rightarrow>
          if status task = newStatus then (b, Returned)
          else
            (b\<lparr>tasks := map (\<lambda>t. if task_id t = taskId then t\<lparr>status := newStatus\<rparr> else t)
                           (tasks b)\<rparr>,
             Await (UpdateTask taskId (status_only newStatus))
                   \<lparr>c_taskId = taskId, c_newStatus = newStatus, c_task = task\<rparr>))"

fun handleTaskMove_settled :: "MoveClosure \<Rightarrow> api_error + Task \<Rightarrow> Board \<Rightarrow> Board" where
  "handleTaskMove_settled c (Inr _) b = b"
| "handleTaskMove_settled c (Inl err) b =
     b\<lparr>tasks := map (\<lambda>t. if task_id t = c_taskId c then t\<lparr>status := status (c_task c)\<rparr> else t)
                    (tasks b),
       error := err_update\<rparr>"

subsection \<open>handleTaskDelete\<close>

text \<open>The answer of \<open>window.confirm\<close> is the first argument.\<close>

definition handleTaskDelete :: "bool \<Rightarrow> int \<Rightarrow> Board \<Rightarrow> Board \<times> int suspended" where
  "handleTaskDelete confirmed taskId b =
     (if \<not> confirmed then (b, Returned) else (b, Await (DeleteTask taskId) taskId))"

fun handleTaskDelete_settled :: "int \<Rightarrow> api_error + unit \<Rightarrow> Board \<Rightarrow> Board" where
  "handleTaskDelete_settled taskId (Inr _) b =
     b\<lparr>tasks := filter (\<lambda>t. task_id t \<noteq> taskId) (tasks b)\<rparr>"
| "handleTaskDelete_settled taskId (Inl err) b = b\<lparr>error := err_delete\<rparr>"

section \<open>Response bodies\<close>

text \<open>
  What Axios hands over as \<open>response.data\<close>: a parsed JSON value, or the raw text when the
  body is not JSON. The elements of an array are taken at the type the source gives them.
  A JSON number is modelled by an integer: the code only asks whether it is zero.
\<close>

datatype 'a json =
    JNull
  | JBool bool
  | JNum int
  | JStr string
  | JArr "'a list"
  | JObj "(string \<times> 'a json) list"

text \<open>JavaScript truthiness, as tested by \<open>&&\<close>.\<close>

fun truthy :: "'a json \<Rightarrow> bool" where
  "truthy JNull = False"
| "truthy (JBool v) = v"
| "truthy (JNum n) = (n \<noteq> 0)"
| "truthy (JStr s) = (s \<noteq> [])"
| "truthy (JArr xs) = True"
| "truthy (JObj kv) = True"

text \<open>
  Reading the property \<open>results\<close> or \<open>data\<close> of a non-null value; \<open>None\<close> is
  \<open>undefined\<close>. Only an object parsed from JSON can carry such a property.
\<close>

fun get_prop :: "string \<Rightarrow> 'a json \<Rightarrow> 'a json option" where
  "get_prop k (JObj kv) = map_of kv k"
| "get_prop k v = None"

text \<open>
  The operator \<open>k in v\<close>: defined on objects (arrays included), a \<open>TypeError\<close> on every
  primitive value.
\<close>

fun js_in :: "string \<Rightarrow> 'a json \<Rightarrow> api_error + bool" where
  "js_in k (JObj kv) = Inr (map_of kv k \<noteq> None)"
| "js_in k (JArr xs) = Inr False"
| "js_in k v = Inl TypeError"

fun isArray :: "'a json option \<Rightarrow> bool" where
  "isArray (Some (JArr xs)) = True"
| "isArray v = False"

fun elems :: "'a json option \<Rightarrow> 'a list" where
  "elems (Some (JArr xs)) = xs"
| "elems v = []"

fun truthy_opt :: "'a json option \<Rightarrow> bool" where
  "truthy_opt None = False"
| "truthy_opt (Some v) = truthy v"

subsection \<open>fetchTasks\<close>

definition fetchTasks :: "int \<Rightarrow> Board \<Rightarrow> Board \<times> unit suspended" where
  "fetchTasks projectId b = (b\<lparr>loading := True, error := []\<rparr>, Await (GetProjectTasks projectId) ())"

text \<open>
  The rest of \<open>fetchTasks\<close>, run when \<open>apiClient.getProjectTasks\<close> settles with
  \<open>tasksData\<close> or rejects; the \<open>finally\<close> block clears \<open>loading\<close> on both paths.
\<close>

fun fetchTasks_settled :: "api_error + Task json \<Rightarrow> Board \<Rightarrow> Board" where
  "fetchTasks_settled (Inr tasksData) b =
     (let b1 =
        (if isArray (Some tasksData) then b\<lparr>tasks := elems (Some tasksData)\<rparr>
         else if truthy tasksData \<and> truthy_opt (get_prop ''results'' tasksData)
                 \<and> isArray (get_prop ''results'' tasksData)
           then b\<lparr>tasks := elems (get_prop ''results'' tasksData)\<rparr>
         else if truthy tasksData \<and> truthy_opt (get_prop ''data'' tasksData)
                 \<and> isArray (get_prop ''data'' tasksData)
           then b\<lparr>tasks := elems (get_prop ''data'' tasksData)\<rparr>
         else b\<lparr>tasks := []\<rparr>)
      in b1\<lparr>loading := False\<rparr>)"
| "fetchTasks_settled (Inl err) b = b\<lparr>error := err_load, tasks := [], loading := False\<rparr>"

subsection \<open>What the component renders\<close>

text \<open>
  The spinner while loading; otherwise, when \<open>error\<close> is a non-empty string, the error
  panel, whose only control is the retry button bound to \<open>fetchTasks\<close>; otherwise one
  column per status with the tasks of that status.
\<close>

datatype View = Spinner | ErrorPanel string | Columns "(TaskStatus \<times> Task list) list"

definition statuses :: "TaskStatus list" where
  "statuses = [TO_DO, IN_PROGRESS, DONE]"

definition render :: "Board \<Rightarrow> View" where
  "render b =
     (if loading b then Spinner
      else if error b \<noteq> [] then ErrorPanel (error b)
      else Columns (map (\<lambda>s. (s, filter (\<lambda>t. status t = s) (tasks b))) statuses))"

section \<open>API client (services/api.ts)\<close>

subsection \<open>Normalisation of list responses\<close>

record Project =
  project_id :: int
  name :: string
  project_description :: string
  owner :: int
  owner_username :: string
  members :: "int list"
  member_usernames :: "string list"
  project_created_at :: string
  tasks_count :: "int option"

text \<open>
  The condition \<open>data && k in data && Array.isArray(data[k])\<close>, evaluated left to right
  with short circuit; it raises what \<open>in\<close> raises.
\<close>

definition envelope_has :: "string \<Rightarrow> 'a json \<Rightarrow> api_error + bool" where
  "envelope_has k d =
     (if \<not> truthy d then Inr False
      else
        (case js_in k d of
           Inl e \<Rightarrow> Inl e
         | Inr present \<Rightarrow> Inr (present \<and> isArray (get_prop k d))))"

text \<open>
  The argument of both functions is the outcome of \<open>this.client.get\<close>: a rejection, or
  the body of the response.
\<close>

definition getProjects :: "api_error + Project json \<Rightarrow> api_error + Project list" where
  "getProjects r =
     (case r of
        Inl e \<Rightarrow> Inl e
      | Inr d \<Rightarrow>
          if isArray (Some d) then Inr (elems (Some d))
          else
            (case envelope_has ''results'' d of
               Inl e \<Rightarrow> Inl e
             | Inr True \<Rightarrow> Inr (elems (get_prop ''results'' d))
             | Inr False \<Rightarrow>
                 (case envelope_has ''data'' d of
                    Inl e \<Rightarrow> Inl e
                  | Inr True \<Rightarrow> Inr (elems (get_prop ''data'' d))
                  | Inr False \<Rightarrow> Inr [])))"

definition getProjectTasks :: "api_error + Task json \<Rightarrow> api_error + Task list" where
  "getProjectTasks r =
     (case r of
        Inl e \<Rightarrow> Inl e
      | Inr d \<Rightarrow>
          if isArray (Some d) then Inr (elems (Some d))
          else
            (case envelope_has ''results'' d of
               Inl e \<Rightarrow> Inl e
             | Inr True \<Rightarrow> Inr (elems (get_prop ''results'' d))
             | Inr False \<Rightarrow>
                 (case envelope_has ''data'' d of
                    Inl e \<Rightarrow> Inl e
                  | Inr True \<Rightarrow> Inr (elems (get_prop ''data'' d))
                  | Inr False \<Rightarrow> Inr [])))"

text \<open>
  Loading the collection end to end: \<open>fetchTasks\<close> awaits \<open>getProjectTasks\<close>, whose
  result, when it resolves, is an array.
\<close>

definition load_tasks :: "int \<Rightarrow> api_error + Task json \<Rightarrow> Board \<Rightarrow> Board" where
  "load_tasks projectId r b =
     fetchTasks_settled (map_sum (\<lambda>e. e) JArr (getProjectTasks r)) (fst (fetchTasks projectId b))"

subsection \<open>Credentials, requests and the server\<close>

text \<open>
  The part of the browser the client touches: the two \<open>localStorage\<close> items (\<open>None\<close> is
  the \<open>null\<close> that \<open>getItem\<close> returns for a missing key) and \<open>window.location.href\<close>.
  The state of the server and the log of everything put on the wire complete the world;
  the log is only written, never read, by the client.
\<close>

record RequestConfig =
  url :: string
  authorization :: "string option"
  retry :: bool

datatype wire = Through_client RequestConfig | Refresh_post string

record 's World =
  access_token :: "string option"
  refresh_token :: "string option"
  location :: string
  server_state :: 's
  sent :: "wire list"

text \<open>
  An answer is a status code with a body, or no response at all (network failure,
  timeout). Axios resolves a promise for the statuses 200 to 299 and rejects otherwise.
\<close>

datatype 'b answer = Status nat 'b | NoAnswer

definition resolves :: "nat \<Rightarrow> bool" where
  "resolves code = (200 \<le> code \<and> code < 300)"

text \<open>
  The server is arbitrary: a function answering the requests that go through the client
  instance and a function answering the post to \<open>/auth/refresh/\<close> that the interceptor
  makes with the global \<open>axios\<close> (argument: the refresh credential sent; body of a good
  answer: the field \<open>access\<close> of the response, at the type of the endpoint's contract).
  Both may depend on, and change, the server's state.
\<close>

type_synonym ('s, 'b) server =
  "(RequestConfig \<Rightarrow> 's \<Rightarrow> 'b answer \<times> 's) \<times> (string \<Rightarrow> 's \<Rightarrow> string answer \<times> 's)"

subsection \<open>setupInterceptors\<close>

text \<open>The request interceptor: attach the access token when \<open>getItem\<close> gives a truthy string.\<close>

definition request_interceptor :: "'s World \<Rightarrow> RequestConfig \<Rightarrow> RequestConfig" where
  "request_interceptor w config =
     (case access_token w of
        None \<Rightarrow> config
      | Some token \<Rightarrow>
          if token \<noteq> [] then config\<lparr>authorization := Some (''Bearer '' @ token)\<rparr> else config)"

definition transmit :: "('s, 'b) server \<Rightarrow> RequestConfig \<Rightarrow> 's World \<Rightarrow> 'b answer \<times> 's World" where
  "transmit srv config w =
     (let (ans, st) = fst srv config (server_state w)
      in (ans, w\<lparr>server_state := st, sent := sent w @ [Through_client config]\<rparr>))"

definition post_refresh :: "('s, 'b) server \<Rightarrow> string \<Rightarrow> 's World \<Rightarrow> string answer \<times> 's World" where
  "post_refresh srv refreshToken w =
     (let (ans, st) = snd srv refreshToken (server_state w)
      in (ans, w\<lparr>server_state := st, sent := sent w @ [Refresh_post refreshToken]\<rparr>))"

text \<open>
  The response interceptor's error handler, for an error whose response status is the
  first argument (\<open>None\<close>: no response) and whose \<open>config\<close> is the second. It ends either
  in \<open>Promise.reject(error)\<close> or in \<open>return this.client(originalRequest)\<close>; the promise
  returned there is not awaited inside the \<open>try\<close>, so the \<open>catch\<close> block sees only a
  failure of the refresh post.
\<close>

datatype 's verdict = Reject "'s World" | Retry RequestConfig "'s World"

definition clear_and_redirect :: "'s World \<Rightarrow> 's World" where
  "clear_and_redirect w = w\<lparr>access_token := None, refresh_token := None, location := ''/login''\<rparr>"

definition on_response_error ::
  "('s, 'b) server \<Rightarrow> nat option \<Rightarrow> RequestConfig \<Rightarrow> 's World \<Rightarrow> 's verdict" where
  "on_response_error srv st originalRequest w =
     (if st = Some 401 \<and> \<not> retry originalRequest then
        (let marked = originalRequest\<lparr>retry := True\<rparr> in
         case refresh_token w of
           None \<Rightarrow> Reject w
         | Some refreshToken \<Rightarrow>
             if refreshToken = [] then Reject w
             else
               (case post_refresh srv refreshToken w of
                  (Status code access, w1) \<Rightarrow>
                    if resolves code then
                      Retry (marked\<lparr>authorization := Some (''Bearer '' @ access)\<rparr>)
                            (w1\<lparr>access_token := Some access\<rparr>)
                    else Reject (clear_and_redirect w1)
                | (NoAnswer, w1) \<Rightarrow> Reject (clear_and_redirect w1)))
      else Reject w)"

text \<open>
  A request through the client instance: request interceptor, transmission, response
  interceptors. A retry is a new call of the instance on the same, marked, config.
\<close>

function client :: "('s, 'b) server \<Rightarrow> RequestConfig \<Rightarrow> 's World \<Rightarrow> (api_error + 'b) \<times> 's World" where
  "client srv config w =
     (let config1 = request_interceptor w config in
      case transmit srv config1 w of
        (Status code body, w1) \<Rightarrow>
          if resolves code then (Inr body, w1)
          else
            (case on_response_error srv (Some code) config1 w1 of
               Reject w2 \<Rightarrow> (Inl (AxiosError (Some code)), w2)
             | Retry config2 w2 \<Rightarrow> client srv config2 w2)
      | (NoAnswer, w1) \<Rightarrow>
          (case on_response_error srv None config1 w1 of
             Reject w2 \<Rightarrow> (Inl (AxiosError None), w2)
           | Retry config2 w2 \<Rightarrow> client srv config2 w2))"
  by pat_completeness auto

lemma retry_request_interceptor: "retry (request_interceptor w config) = retry config"
  by (simp add: request_interceptor_def split: option.splits)

lemma on_response_error_Retry:
  "on_response_error srv st config w = Retry config2 w2 \<Longrightarrow> \<not> retry config \<and> retry config2"
  by (auto simp: on_response_error_def Let_def split: if_splits option.splits prod.splits answer.splits)

termination client
proof (relation "measure (\<lambda>(srv, config, w). if retry config then 0 else 1)")
  show "wf (measure (\<lambda>(srv :: ('s, 'b) server, config, w :: 's World). if retry config then 0 else (1::nat)))"
    by simp
qed (auto dest!: on_response_error_Retry simp: retry_request_interceptor)

declare client.simps [simp del]

text \<open>\<open>apiClient.refreshToken\<close>: a post to \<open>/auth/refresh/\<close> through the client instance.\<close>

definition apiClient_refreshToken :: "('s, string) server \<Rightarrow> 's World \<Rightarrow> (api_error + string) \<times> 's World" where
  "apiClient_refreshToken srv w =
     client srv \<lparr>url = ''/auth/refresh/'', authorization = None, retry = False\<rparr> w"

section \<open>Authentication context\<close>

record User =
  user_id :: int
  username :: string
  email :: string
  first_name :: string
  last_name :: string
  date_joined :: string
  is_staff :: "bool option"
  is_active :: "bool option"
  is_superuser :: "bool option"
  last_login :: "string option"

record Auth =
  user :: "User option"
  isAuthenticated :: bool
  isLoading :: bool

definition logout :: "Auth \<times> 's World \<Rightarrow> Auth \<times> 's World" where
  "logout aw =
     (case aw of (a, w) \<Rightarrow>
        (a\<lparr>user := None, isAuthenticated := False\<rparr>,
         w\<lparr>access_token := None, refresh_token := None\<rparr>))"

text \<open>
  \<open>refreshToken\<close> of the context: store the new access token, or log out and rethrow.
\<close>

definition refreshToken ::
  "('s, string) server \<Rightarrow> Auth \<times> 's World \<Rightarrow> (api_error + unit) \<times> Auth \<times> 's World" where
  "refreshToken srv aw =
     (case aw of (a, w) \<Rightarrow>
        (case apiClient_refreshToken srv w of
           (Inr access, w1) \<Rightarrow> (Inr (), a, w1\<lparr>access_token := Some access\<rparr>)
         | (Inl e, w1) \<Rightarrow> (Inl e, logout (a, w1))))"

section \<open>Permission Evaluator\<close>

text \<open>
  The backend is a Django application (\<open>kanban_api/kanban/permissions.py\<close>) that is not
  among the source files; only the client is. The evaluator is therefore written after
  section 4.1 of the specification, rule by rule and in its order of precedence. An actor
  is compared with an owner, a member or an author by identifier.
\<close>

datatype decision = ALLOW | DENY

datatype operation = Create | Read | Update | Delete

record Actor =
  actor_id :: int
  actor_is_staff :: bool
  actor_is_superuser :: bool

record ProjectAcl =
  acl_owner :: int
  acl_members :: "int set"

text \<open>
  A resource, with what the rules look at: a project; a task with its project; a comment
  with the project of its task and its author; a user record.
\<close>

datatype resource =
    ProjectRes ProjectAcl
  | TaskRes ProjectAcl
  | CommentRes ProjectAcl int
  | UserRes int

definition is_owner :: "Actor \<Rightarrow> ProjectAcl \<Rightarrow> bool" where
  "is_owner a p = (actor_id a = acl_owner p)"

definition is_member :: "Actor \<Rightarrow> ProjectAcl \<Rightarrow> bool" where
  "is_member a p = (actor_id a \<in> acl_members p)"

definition allow_iff :: "bool \<Rightarrow> decision" where
  "allow_iff c = (if c then ALLOW else DENY)"

text \<open>
  Modelled from the spec: the Permission Evaluator of the backend, whose code is missing.
  Rule 1 is the administration bypass; rule 2 gives a project's members read access and
  keeps update and delete for the owner; rule 3 opens every task operation to the owner
  and the members of the task's project; rule 4 lets them comment and keeps the edit and
  delete of a comment for its author; rule 5 lets a user read and update their own
  record; rule 6 denies the rest.
\<close>

fun permission_evaluator :: "Actor \<Rightarrow> resource \<Rightarrow> operation \<Rightarrow> decision" where
  "permission_evaluator a r oper =
     (if actor_is_superuser a \<or> actor_is_staff a then ALLOW
      else
        (case r of
           ProjectRes p \<Rightarrow>
             (case oper of
                Read \<Rightarrow> allow_iff (is_owner a p \<or> is_member a p)
              | Update \<Rightarrow> allow_iff (is_owner a p)
              | Delete \<Rightarrow> allow_iff (is_owner a p)
              | Create \<Rightarrow> DENY)
         | TaskRes p \<Rightarrow> allow_iff (is_owner a p \<or> is_member a p)
         | CommentRes p author \<Rightarrow>
             (case oper of
                Create \<Rightarrow> allow_iff (is_owner a p \<or> is_member a p)
              | Update \<Rightarrow> allow_iff (actor_id a = author)
              | Delete \<Rightarrow> allow_iff (actor_id a = author)
              | Read \<Rightarrow> DENY)
         | UserRes u \<Rightarrow>
             (case oper of
                Read \<Rightarrow> allow_iff (actor_id a = u)
              | Update \<Rightarrow> allow_iff (actor_id a = u)
              | Create \<Rightarrow> DENY
              | Delete \<Rightarrow> DENY)))"

section \<open>Delivering a settled promise to a suspended handler\<close>

text \<open>
  The event loop resumes a suspended move handler with the outcome of its call, on the
  board as it is at that moment. A handler that had returned has nothing left to run.
\<close>

definition settle_drag :: "MoveClosure suspended \<Rightarrow> api_error + Task \<Rightarrow> Board \<Rightarrow> Board" where
  "settle_drag k r b = (case k of Returned \<Rightarrow> b | Await call c \<Rightarrow> handleDragEnd_settled c r b)"

definition settle_move :: "MoveClosure suspended \<Rightarrow> api_error + Task \<Rightarrow> Board \<Rightarrow> Board" where
  "settle_move k r b = (case k of Returned \<Rightarrow> b | Await call c \<Rightarrow> handleTaskMove_settled c r b)"

section \<open>Properties stated by the specification\<close>

text \<open>Two tasks agree on every field but \<open>status\<close>.\<close>

definition same_but_status :: "Task \<Rightarrow> Task \<Rightarrow> bool" where
  "same_but_status t t' =
     (task_id t' = task_id t \<and> title t' = title t \<and> description t' = description t
      \<and> project t' = project t \<and> project_name t' = project_name t
      \<and> priority t' = priority t \<and> assigned_to t' = assigned_to t
      \<and> assigned_to_username t' = assigned_to_username t \<and> due_date t' = due_date t
      \<and> created_at t' = created_at t \<and> updated_at t' = updated_at t
      \<and> comments_count t' = comments_count t)"

text \<open>
  The frame of a status move of the task \<open>taskId\<close>: the collection keeps its length and
  order, every task keeps every field but \<open>status\<close>, and a task with another identifier
  is untouched.
\<close>

definition frame_of_move :: "int \<Rightarrow> Task list \<Rightarrow> Task list \<Rightarrow> bool" where
  "frame_of_move taskId old new =
     list_all2 (\<lambda>t t'. same_but_status t t' \<and> (task_id t \<noteq> taskId \<longrightarrow> t' = t)) old new"

definition changed_positions :: "Task list \<Rightarrow> Task list \<Rightarrow> nat list" where
  "changed_positions old new = filter (\<lambda>i. new ! i \<noteq> old ! i) [0..<length old]"

text \<open>How often a request went through the client instance, and how often a refresh was posted.\<close>

fun is_through :: "wire \<Rightarrow> bool" where
  "is_through (Through_client c) = True"
| "is_through (Refresh_post t) = False"

definition transmissions :: "wire list \<Rightarrow> nat" where
  "transmissions ws = length (filter is_through ws)"

definition refreshes :: "wire list \<Rightarrow> nat" where
  "refreshes ws = length (filter (\<lambda>m. \<not> is_through m) ws)"

text \<open>The refresh post failed: no response, or a status that Axios rejects.\<close>

fun refresh_failed :: "string answer \<Rightarrow> bool" where
  "refresh_failed NoAnswer = True"
| "refresh_failed (Status code access) = (\<not> resolves code)"

section \<open>Sample data\<close>

definition demo_task :: "int \<Rightarrow> TaskStatus \<Rightarrow> Task" where
  "demo_task i s =
     \<lparr>task_id = i, title = ''Write report'', description = ''Quarterly figures'', project = 7,
      project_name = ''Reporting'', status = s, priority = MEDIUM, assigned_to = Some 3,
      assigned_to_username = Some ''user'', due_date = None, created_at = ''2024-01-05'',
      updated_at = ''2024-01-06'', comments_count = Some 0\<rparr>"

definition demo_board :: "Task list \<Rightarrow> Board" where
  "demo_board ts =
     \<lparr>tasks = ts, loading = False, error = [], activeTask = None, showCreateTaskModal = False,
      showTaskDetailsModal = False, selectedTask = None\<rparr>"

definition drop_on :: "int \<Rightarrow> TaskStatus \<Rightarrow> DragEndEvent" where
  "drop_on i s = \<lparr>active_id = i, over_id = Some s\<rparr>"

definition server_error :: "api_error + Task" where
  "server_error = Inl (AxiosError (Some 500))"

text \<open>
  A server that answers every request with 401 and every refresh with 401, and one whose
  access credential has expired while the refresh credential is still good: it answers
  401 unless the request carries the renewed token.
\<close>

definition always_401 :: "(unit, string) server" where
  "always_401 = (\<lambda>config st. (Status 401 [], st), \<lambda>token st. (Status 401 [], st))"

definition expired_access :: "(unit, string) server" where
  "expired_access =
     (\<lambda>config st. (if authorization config = Some ''Bearer fresh'' then Status 200 ''ok''
                    else Status 401 [], st),
      \<lambda>token st. (Status 200 ''fresh'', st))"

text \<open>A server that renews the access credential and still answers 401 to every request.\<close>

definition rejects_renewed :: "(unit, string) server" where
  "rejects_renewed = (\<lambda>config st. (Status 401 [], st), \<lambda>token st. (Status 200 ''fresh'', st))"

definition demo_world :: "string option \<Rightarrow> string option \<Rightarrow> unit World" where
  "demo_world a r =
     \<lparr>access_token = a, refresh_token = r, location = ''/dashboard'', server_state = (), sent = []\<rparr>"

definition demo_config :: RequestConfig where
  "demo_config = \<lparr>url = ''/tasks/1/'', authorization = None, retry = False\<rparr>"

definition overlap_start :: Board where
  "overlap_start = demo_board [demo_task 1 TO_DO]"

definition overlap_b1 :: Board where
  "overlap_b1 = fst (handleDragEnd (drop_on 1 IN_PROGRESS) overlap_start)"

definition overlap_k1 :: "MoveClosure suspended" where
  "overlap_k1 = snd (handleDragEnd (drop_on 1 IN_PROGRESS) overlap_start)"

definition overlap_b2 :: Board where
  "overlap_b2 = fst (handleDragEnd (drop_on 1 DONE) overlap_b1)"

definition overlap_k2 :: "MoveClosure suspended" where
  "overlap_k2 = snd (handleDragEnd (drop_on 1 DONE) overlap_b1)"

section \<open>Facts about finding and updating a task by identifier\<close>

lemma find_by_id:
  "distinct (map task_id ts) \<Longrightarrow> T \<in> set ts \<Longrightarrow> find (\<lambda>t. task_id t = task_id T) ts = Some T"
  by (induction ts) (auto simp: image_iff)

lemma same_id_same_task:
  "distinct (map task_id ts) \<Longrightarrow> T \<in> set ts \<Longrightarrow> t \<in> set ts \<Longrightarrow> task_id t = task_id T \<Longrightarrow> t = T"
  by (meson distinct_map inj_onD)

lemma find_set_status:
  "find (\<lambda>t. task_id t = k) (map (\<lambda>t. if task_id t = k then t\<lparr>status := s\<rparr> else t) ts)
     = map_option (\<lambda>t. t\<lparr>status := s\<rparr>) (find (\<lambda>t. task_id t = k) ts)"
  by (induction ts) auto

lemma rollback_undoes_optimistic:
  assumes "distinct (map task_id ts)" and "T \<in> set ts"
  shows "map (\<lambda>t. if task_id t = task_id T then t\<lparr>status := status T\<rparr> else t)
           (map (\<lambda>t. if task_id t = task_id T then t\<lparr>status := s\<rparr> else t) ts) = ts"
proof -
  have "(if task_id t = task_id T then t\<lparr>status := status T\<rparr> else t) = t" if "t \<in> set ts" for t
  proof (cases "task_id t = task_id T")
    case True
    with assms that have "t = T" by (simp add: same_id_same_task)
    then show ?thesis by simp
  qed simp
  then have "map (\<lambda>t. if task_id t = task_id T then t\<lparr>status := status T\<rparr> else t) ts = ts"
    by (simp add: map_idI)
  moreover have "map (\<lambda>t. if task_id t = task_id T then t\<lparr>status := status T\<rparr> else t)
           (map (\<lambda>t. if task_id t = task_id T then t\<lparr>status := s\<rparr> else t) ts)
         = map (\<lambda>t. if task_id t = task_id T then t\<lparr>status := status T\<rparr> else t) ts"
    by simp
  ultimately show ?thesis by simp
qed


lemma handleDragEnd_moves:
  assumes "T \<in> set (tasks b)" and "distinct (map task_id (tasks b))"
    and "active_id event = task_id T" and "over_id event = Some S'" and "S' \<noteq> status T"
  shows "handleDragEnd event b =
           (b\<lparr>activeTask := None,
              tasks := map (\<lambda>t. if task_id t = task_id T then t\<lparr>status := S'\<rparr> else t) (tasks b)\<rparr>,
            Await (UpdateTask (task_id T) (status_only S'))
                  \<lparr>c_taskId = task_id T, c_newStatus = S', c_task = T\<rparr>)"
  using assms find_by_id [OF assms(2,1)] by (simp add: handleDragEnd_def Let_def)

lemma handleDragEnd_settled_failure:
  "handleDragEnd_settled \<lparr>c_taskId = k, c_newStatus = s', c_task = T\<rparr> (Inl e) b =
     b\<lparr>tasks := map (\<lambda>t. if task_id t = k then t\<lparr>status := status T\<rparr> else t) (tasks b),
       error := err_update\<rparr>"
  by (simp cong: if_cong)

lemma task_id_set_status:
  "map task_id (map (\<lambda>t. if task_id t = k then t\<lparr>status := s\<rparr> else t) ts) = map task_id ts"
  by (induction ts) auto

lemma moved_task_in_set:
  "T \<in> set ts \<Longrightarrow>
     T\<lparr>status := s\<rparr> \<in> set (map (\<lambda>t. if task_id t = task_id T then t\<lparr>status := s\<rparr> else t) ts)"
  by (induction ts) auto

section \<open>Facts about the frame of a status move\<close>

lemma same_but_status_refl: "same_but_status t t"
  by (simp add: same_but_status_def)

lemma same_but_status_update: "same_but_status t (t\<lparr>status := s\<rparr>)"
  by (simp add: same_but_status_def)

lemma frame_of_move_refl: "frame_of_move k ts ts"
  by (simp add: frame_of_move_def list_all2_same same_but_status_refl)

lemma frame_of_move_set_status:
  "frame_of_move k ts (map (\<lambda>t. if task_id t = k then t\<lparr>status := s\<rparr> else t) ts)"
  by (induction ts)
     (simp_all add: frame_of_move_def same_but_status_refl same_but_status_update)

lemma changed_positions_set_status:
  assumes "distinct (map task_id ts)"
  shows "length (changed_positions ts (map (\<lambda>t. if task_id t = k then t\<lparr>status := s\<rparr> else t) ts)) \<le> 1"
proof -
  let ?new = "map (\<lambda>t. if task_id t = k then t\<lparr>status := s\<rparr> else t) ts"
  let ?A = "{i. ?new ! i \<noteq> ts ! i} \<inter> set [0..<length ts]"
  have len: "length (changed_positions ts ?new) = card ?A"
    unfolding changed_positions_def by (rule distinct_length_filter) simp
  have same: "i = j" if "i \<in> ?A" and "j \<in> ?A" for i j
  proof -
    from that have i: "i < length ts" "task_id (ts ! i) = k" and j: "j < length ts" "task_id (ts ! j) = k"
      by (auto split: if_splits)
    then have "map task_id ts ! i = map task_id ts ! j"
      by simp
    with assms i(1) j(1) show "i = j"
      by (simp add: nth_eq_iff_index_eq del: nth_map)
  qed
  have "finite ?A" by simp
  then have "card ?A \<le> Suc 0"
    using same by (subst card_le_Suc0_iff_eq) auto
  with len show ?thesis by simp
qed

lemma changed_positions_same: "changed_positions ts ts = []"
  by (simp add: changed_positions_def)

lemma handleDragEnd_tasks:
  "tasks (fst (handleDragEnd event b)) =
     (if snd (handleDragEnd event b) = Returned then tasks b
      else map (\<lambda>t. if task_id t = active_id event then t\<lparr>status := the (over_id event)\<rparr> else t) (tasks b))"
  by (simp add: handleDragEnd_def Let_def split: option.splits)

lemma handleTaskMove_tasks:
  "tasks (fst (handleTaskMove taskId newStatus b)) =
     (if snd (handleTaskMove taskId newStatus b) = Returned then tasks b
      else map (\<lambda>t. if task_id t = taskId then t\<lparr>status := newStatus\<rparr> else t) (tasks b))"
  by (simp add: handleTaskMove_def split: option.splits)

lemma handleDragEnd_settled_tasks:
  "tasks (handleDragEnd_settled c r b) =
     (if isl r then map (\<lambda>t. if task_id t = c_taskId c then t\<lparr>status := status (c_task c)\<rparr> else t) (tasks b)
      else tasks b)"
  by (cases r) simp_all

lemma handleTaskMove_settled_tasks:
  "tasks (handleTaskMove_settled c r b) =
     (if isl r then map (\<lambda>t. if task_id t = c_taskId c then t\<lparr>status := status (c_task c)\<rparr> else t) (tasks b)
      else tasks b)"
  by (cases r) simp_all

lemma status_move_frame:
  "frame_of_move k old
     (if q then old else map (\<lambda>t. if task_id t = k then t\<lparr>status := s\<rparr> else t) old)"
  "frame_of_move k old
     (if q then map (\<lambda>t. if task_id t = k then t\<lparr>status := s\<rparr> else t) old else old)"
  by (simp_all add: frame_of_move_refl frame_of_move_set_status)

lemma status_move_single:
  assumes "distinct (map task_id old)"
  shows "length (changed_positions old
           (if q then old else map (\<lambda>t. if task_id t = k then t\<lparr>status := s\<rparr> else t) old)) \<le> 1"
    and "length (changed_positions old
           (if q then map (\<lambda>t. if task_id t = k then t\<lparr>status := s\<rparr> else t) old else old)) \<le> 1"
  using changed_positions_set_status [OF assms, of k s]
  by (simp_all add: changed_positions_same)

section \<open>Facts about the two move handlers\<close>

lemma settled_same: "handleDragEnd_settled c r b = handleTaskMove_settled c r b"
  by (cases r) simp_all

lemma settle_same: "settle_drag k r b = settle_move k r b"
  by (cases k) (simp_all add: settle_drag_def settle_move_def settled_same)

section \<open>Facts about the normalisation of list responses\<close>

lemma normalisation_of_lists:
  "getProjectTasks (Inr (JArr xs)) = Inr xs"
  "getProjectTasks (Inr JNull) = Inr []"
  "getProjectTasks (Inr (JObj kv)) =
     Inr (case map_of kv ''results'' of
            Some (JArr ys) \<Rightarrow> ys
          | _ \<Rightarrow> (case map_of kv ''data'' of Some (JArr zs) \<Rightarrow> zs | _ \<Rightarrow> []))"
  by (auto simp: getProjectTasks_def envelope_has_def split: option.splits json.splits)

section \<open>Facts about requests through the client instance\<close>

lemma transmit_world:
  "transmit srv c w = (ans, w1) \<Longrightarrow>
     sent w1 = sent w @ [Through_client c] \<and> access_token w1 = access_token w
     \<and> refresh_token w1 = refresh_token w \<and> location w1 = location w"
  by (auto simp: transmit_def Let_def split: prod.splits)

lemma on_response_error_marked:
  "retry config \<Longrightarrow> on_response_error srv st config w = Reject w"
  by (simp add: on_response_error_def)

lemma client_marked:
  assumes "retry config"
  shows "client srv config w =
           (case transmit srv (request_interceptor w config) w of
              (Status code body, w1) \<Rightarrow>
                if resolves code then (Inr body, w1) else (Inl (AxiosError (Some code)), w1)
            | (NoAnswer, w1) \<Rightarrow> (Inl (AxiosError None), w1))"
  using assms
  by (subst client.simps)
     (simp add: Let_def on_response_error_marked retry_request_interceptor
        split: prod.splits answer.splits)

lemma post_refresh_world:
  "post_refresh srv rt w = (ans, w1) \<Longrightarrow>
     sent w1 = sent w @ [Refresh_post rt] \<and> access_token w1 = access_token w
     \<and> refresh_token w1 = refresh_token w \<and> location w1 = location w"
  by (auto simp: post_refresh_def Let_def split: prod.splits)

lemma client_marked_sent:
  assumes "retry config"
  shows "sent (snd (client srv config w)) = sent w @ [Through_client (request_interceptor w config)]"
proof -
  obtain ans w1 where t: "transmit srv (request_interceptor w config) w = (ans, w1)"
    by (cases "transmit srv (request_interceptor w config) w")
  then have "sent w1 = sent w @ [Through_client (request_interceptor w config)]"
    by (simp add: transmit_world)
  then show ?thesis
    using t by (cases ans) (simp_all add: client_marked [OF assms])
qed

lemma on_response_error_sent:
  "on_response_error srv st config w = Reject w2 \<Longrightarrow>
     sent w2 = sent w \<or> (\<exists>rt. sent w2 = sent w @ [Refresh_post rt])"
  "on_response_error srv st config w = Retry config2 w2 \<Longrightarrow>
     \<exists>rt. sent w2 = sent w @ [Refresh_post rt]"
  by (auto simp: on_response_error_def Let_def clear_and_redirect_def
        split: if_splits option.splits prod.splits answer.splits dest!: post_refresh_world)

lemma client_step:
  assumes "transmit srv (request_interceptor w config) w = (ans, w1)"
  shows "client srv config w =
           (case ans of
              Status code body \<Rightarrow>
                if resolves code then (Inr body, w1)
                else (case on_response_error srv (Some code) (request_interceptor w config) w1 of
                        Reject w2 \<Rightarrow> (Inl (AxiosError (Some code)), w2)
                      | Retry config2 w2 \<Rightarrow> client srv config2 w2)
            | NoAnswer \<Rightarrow>
                (case on_response_error srv None (request_interceptor w config) w1 of
                   Reject w2 \<Rightarrow> (Inl (AxiosError None), w2)
                 | Retry config2 w2 \<Rightarrow> client srv config2 w2))"
  by (subst client.simps) (simp add: Let_def assms)

lemma after_error_sent:
  assumes "sent w1 = sent w @ [Through_client c1]"
  shows "\<exists>extra. sent (snd (case on_response_error srv st c1 w1 of
                              Reject w2 \<Rightarrow> (Inl e, w2)
                            | Retry config2 w2 \<Rightarrow> client srv config2 w2)) = sent w @ extra
           \<and> (extra = [Through_client c1]
              \<or> \<not> retry c1
                \<and> (\<exists>rt. extra = [Through_client c1, Refresh_post rt]
                      \<or> (\<exists>c2. retry c2 \<and> extra = [Through_client c1, Refresh_post rt, Through_client c2])))"
proof (cases "on_response_error srv st c1 w1")
  case (Reject w2)
  have "sent w2 = sent w1 \<or> (\<exists>rt. sent w2 = sent w1 @ [Refresh_post rt])"
    using Reject by (rule on_response_error_sent)
  moreover have "\<not> retry c1" if "sent w2 \<noteq> sent w1"
    using that Reject by (cases "retry c1") (simp_all add: on_response_error_marked)
  ultimately show ?thesis
    using assms Reject by (cases "sent w2 = sent w1") auto
next
  case (Retry c2 w2)
  then obtain rt where s2: "sent w2 = sent w1 @ [Refresh_post rt]"
    using on_response_error_sent(2) by blast
  from Retry have m: "\<not> retry c1" "retry c2"
    by (auto dest: on_response_error_Retry)
  have "sent (snd (client srv c2 w2)) = sent w2 @ [Through_client (request_interceptor w2 c2)]"
    by (rule client_marked_sent [OF m(2)])
  moreover have "retry (request_interceptor w2 c2)"
    using m(2) by (simp add: retry_request_interceptor)
  ultimately show ?thesis
    using assms s2 m(1) Retry by simp
qed

lemma client_sent:
  "\<exists>extra. sent (snd (client srv config w)) = sent w @ extra
     \<and> (extra = [Through_client (request_interceptor w config)]
        \<or> \<not> retry config
          \<and> (\<exists>rt. extra = [Through_client (request_interceptor w config), Refresh_post rt]
                \<or> (\<exists>c2. retry c2
                      \<and> extra = [Through_client (request_interceptor w config), Refresh_post rt,
                                  Through_client c2])))"
proof -
  let ?c1 = "request_interceptor w config"
  obtain ans w1 where t: "transmit srv ?c1 w = (ans, w1)" by (cases "transmit srv ?c1 w")
  then have s1: "sent w1 = sent w @ [Through_client ?c1]" by (simp add: transmit_world)
  have r: "retry ?c1 = retry config" by (rule retry_request_interceptor)
  show ?thesis
  proof (cases ans)
    case NoAnswer
    then show ?thesis
      using after_error_sent [OF s1, where srv = srv and st = None and e = "AxiosError None"]
      by (simp only: client_step [OF t] answer.case r)
  next
    case (Status code body)
    show ?thesis
    proof (cases "resolves code")
      case True
      then show ?thesis using Status s1 by (simp add: client_step [OF t])
    next
      case False
      then show ?thesis
        using after_error_sent [OF s1, where srv = srv and st = "Some code" and e = "AxiosError (Some code)"] Status
        by (simp only: client_step [OF t] answer.case r if_False)
    qed
  qed
qed

lemma client_expired_access:
  "client expired_access demo_config (demo_world (Some ''stale'') (Some ''old''))
     = (Inr ''ok'',
        \<lparr>access_token = Some ''fresh'', refresh_token = Some ''old'', location = ''/dashboard'',
         server_state = (),
         sent = [Through_client \<lparr>url = ''/tasks/1/'', authorization = Some ''Bearer stale'', retry = False\<rparr>,
                 Refresh_post ''old'',
                 Through_client \<lparr>url = ''/tasks/1/'', authorization = Some ''Bearer fresh'', retry = True\<rparr>]\<rparr>)"
  by (subst client.simps)
     (simp add: client_marked expired_access_def demo_config_def demo_world_def
        request_interceptor_def transmit_def post_refresh_def on_response_error_def resolves_def)

lemma client_rejects_renewed:
  "client rejects_renewed demo_config (demo_world (Some ''stale'') (Some ''old''))
     = (Inl (AxiosError (Some 401)),
        \<lparr>access_token = Some ''fresh'', refresh_token = Some ''old'', location = ''/dashboard'',
         server_state = (),
         sent = [Through_client \<lparr>url = ''/tasks/1/'', authorization = Some ''Bearer stale'', retry = False\<rparr>,
                 Refresh_post ''old'',
                 Through_client \<lparr>url = ''/tasks/1/'', authorization = Some ''Bearer fresh'', retry = True\<rparr>]\<rparr>)"
  by (subst client.simps)
     (simp add: client_marked rejects_renewed_def demo_config_def demo_world_def
        request_interceptor_def transmit_def post_refresh_def on_response_error_def resolves_def)

lemma on_response_error_refresh_failed:
  assumes "\<not> retry config" and "refresh_token w = Some rt" and "rt \<noteq> []"
    and "refresh_failed (fst (post_refresh srv rt w))"
  shows "on_response_error srv (Some 401) config w = Reject (clear_and_redirect (snd (post_refresh srv rt w)))"
  using assms
  by (cases "post_refresh srv rt w"; cases "fst (post_refresh srv rt w)")
     (simp_all add: on_response_error_def)

lemma on_response_error_no_refresh_token:
  assumes "refresh_token w = None \<or> refresh_token w = Some []"
  shows "on_response_error srv st config w = Reject w"
  using assms by (auto simp: on_response_error_def)

lemma refreshToken_failure:
  assumes "fst (apiClient_refreshToken srv w) = Inl e"
  shows "refreshToken srv (a, w) =
           (Inl e, a\<lparr>user := None, isAuthenticated := False\<rparr>,
            (snd (apiClient_refreshToken srv w))\<lparr>access_token := None, refresh_token := None\<rparr>)"
  using assms by (cases "apiClient_refreshToken srv w") (simp add: refreshToken_def logout_def)

lemma client_always_401:
  "client always_401 demo_config (demo_world (Some ''stale'') (Some ''old''))
     = (Inl (AxiosError (Some 401)),
        \<lparr>access_token = None, refresh_token = None, location = ''/login'', server_state = (),
         sent = [Through_client \<lparr>url = ''/tasks/1/'', authorization = Some ''Bearer stale'', retry = False\<rparr>,
                 Refresh_post ''old'']\<rparr>)"
  by (subst client.simps)
     (simp add: always_401_def demo_config_def demo_world_def clear_and_redirect_def
        request_interceptor_def transmit_def post_refresh_def on_response_error_def resolves_def)

lemma client_no_refresh_token:
  "client always_401 demo_config (demo_world (Some ''stale'') None)
     = (Inl (AxiosError (Some 401)),
        \<lparr>access_token = Some ''stale'', refresh_token = None, location = ''/dashboard'',
         server_state = (),
         sent = [Through_client \<lparr>url = ''/tasks/1/'', authorization = Some ''Bearer stale'', retry = False\<rparr>]\<rparr>)"
  by (subst client.simps)
     (simp add: always_401_def demo_config_def demo_world_def clear_and_redirect_def
        request_interceptor_def transmit_def post_refresh_def on_response_error_def resolves_def)

section \<open>Optimistic status change and rollback\<close>

text \<open>
  C1. A task \<open>T\<close> of the collection, whose identifiers are distinct, is dragged to another
  status \<open>S'\<close>. The handler issues the update with \<open>T\<close> itself as the captured snapshot
  and shows \<open>S'\<close> at once. When the call fails with nothing in between, the collection is
  again what it was before the drag, the error message is set and the component shows it
  (once it is not loading). And on whatever board the failure arrives, every task with the
  identifier of \<open>T\<close> ends with the status that \<open>T\<close> had when the drag began.
\<close>

theorem failed_drag_restores_status:
  assumes "T \<in> set (tasks b)" and "distinct (map task_id (tasks b))"
    and "active_id event = task_id T" and "over_id event = Some S'" and "S' \<noteq> status T"
  shows "snd (handleDragEnd event b) =
           Await (UpdateTask (task_id T) (status_only S'))
                 \<lparr>c_taskId = task_id T, c_newStatus = S', c_task = T\<rparr>
         \<and> find (\<lambda>t. task_id t = task_id T) (tasks (fst (handleDragEnd event b))) = Some (T\<lparr>status := S'\<rparr>)
         \<and> tasks (settle_drag (snd (handleDragEnd event b)) (Inl e) (fst (handleDragEnd event b))) = tasks b
         \<and> error (settle_drag (snd (handleDragEnd event b)) (Inl e) (fst (handleDragEnd event b))) = err_update
         \<and> render (settle_drag (snd (handleDragEnd event b)) (Inl e) (fst (handleDragEnd event b)))
             = (if loading b then Spinner else ErrorPanel err_update)
         \<and> (\<forall>b2. \<forall>t \<in> set (tasks (settle_drag (snd (handleDragEnd event b)) (Inl e) b2)).
                task_id t = task_id T \<longrightarrow> status t = status T)"
proof -
  note start = handleDragEnd_moves [OF assms]
  have found: "find (\<lambda>t. task_id t = task_id T) (tasks b) = Some T"
    using assms(1,2) by (simp add: find_by_id)
  have opt: "find (\<lambda>t. task_id t = task_id T) (tasks (fst (handleDragEnd event b))) = Some (T\<lparr>status := S'\<rparr>)"
    using found by (simp add: start find_set_status)
  have undone: "tasks (settle_drag (snd (handleDragEnd event b)) (Inl e) (fst (handleDragEnd event b))) = tasks b"
    by (simp only: start settle_drag_def fst_conv snd_conv suspended.case handleDragEnd_settled_failure)
       (simp del: map_map add: rollback_undoes_optimistic [OF assms(2,1)])
  have msg: "error (settle_drag (snd (handleDragEnd event b)) (Inl e) (fst (handleDragEnd event b))) = err_update"
    by (simp only: start settle_drag_def fst_conv snd_conv suspended.case handleDragEnd_settled_failure) simp
  have shown: "render (settle_drag (snd (handleDragEnd event b)) (Inl e) (fst (handleDragEnd event b)))
             = (if loading b then Spinner else ErrorPanel err_update)"
    by (simp only: start settle_drag_def fst_conv snd_conv suspended.case handleDragEnd_settled_failure)
       (simp add: render_def err_update_def)
  have anyb: "\<forall>b2. \<forall>t \<in> set (tasks (settle_drag (snd (handleDragEnd event b)) (Inl e) b2)).
                task_id t = task_id T \<longrightarrow> status t = status T"
    by (simp only: start settle_drag_def fst_conv snd_conv suspended.case handleDragEnd_settled_failure) auto
  show ?thesis
    by (intro conjI) (simp add: start, rule opt, rule undone, rule msg, rule shown, rule anyb)
qed

theorem failed_drag_restores_status_witness:
  "demo_task 1 TO_DO \<in> set (tasks (demo_board [demo_task 1 TO_DO, demo_task 2 DONE]))
   \<and> distinct (map task_id (tasks (demo_board [demo_task 1 TO_DO, demo_task 2 DONE])))
   \<and> active_id (drop_on 1 IN_PROGRESS) = task_id (demo_task 1 TO_DO)
   \<and> over_id (drop_on 1 IN_PROGRESS) = Some IN_PROGRESS
   \<and> IN_PROGRESS \<noteq> status (demo_task 1 TO_DO)
   \<and> map status (tasks (fst (handleDragEnd (drop_on 1 IN_PROGRESS)
                               (demo_board [demo_task 1 TO_DO, demo_task 2 DONE]))))
       = [IN_PROGRESS, DONE]
   \<and> tasks (settle_drag (snd (handleDragEnd (drop_on 1 IN_PROGRESS)
                                  (demo_board [demo_task 1 TO_DO, demo_task 2 DONE])))
                          server_error
                          (fst (handleDragEnd (drop_on 1 IN_PROGRESS)
                                  (demo_board [demo_task 1 TO_DO, demo_task 2 DONE]))))
       = [demo_task 1 TO_DO, demo_task 2 DONE]"
  using failed_drag_restores_status
          [of "demo_task 1 TO_DO" "demo_board [demo_task 1 TO_DO, demo_task 2 DONE]"
              "drop_on 1 IN_PROGRESS" IN_PROGRESS "AxiosError (Some 500)"]
  by (simp add: demo_task_def demo_board_def drop_on_def server_error_def handleDragEnd_def
        settle_drag_def)

text \<open>
  C2, as the code has it. A task \<open>T\<close> is dragged to \<open>S1\<close> and, while that call is
  pending, dragged again to \<open>S2\<close>. The second drag overwrites the status shown and
  captures the task as the first drag left it: its rollback restores \<open>S1\<close>, the
  intermediate optimistic value, on whatever board the failure arrives. Only the rollback
  of the first drag restores the status that \<open>T\<close> had before any drag.
\<close>

theorem overlapping_drag_rolls_back_to_intermediate:
  assumes "T \<in> set (tasks b)" and "distinct (map task_id (tasks b))"
    and "S1 \<noteq> status T" and "S2 \<noteq> S1"
    and "handleDragEnd (drop_on (task_id T) S1) b = (b1, k1)"
    and "handleDragEnd (drop_on (task_id T) S2) b1 = (b2, k2)"
  shows "k2 = Await (UpdateTask (task_id T) (status_only S2))
                    \<lparr>c_taskId = task_id T, c_newStatus = S2, c_task = T\<lparr>status := S1\<rparr>\<rparr>
         \<and> find (\<lambda>t. task_id t = task_id T) (tasks b2) = Some (T\<lparr>status := S2\<rparr>)
         \<and> tasks (settle_drag k2 (Inl e) b2) = tasks b1
         \<and> find (\<lambda>t. task_id t = task_id T) (tasks (settle_drag k2 (Inl e) b2)) = Some (T\<lparr>status := S1\<rparr>)
         \<and> (\<forall>b'. \<forall>t \<in> set (tasks (settle_drag k2 (Inl e) b')). task_id t = task_id T \<longrightarrow> status t = S1)
         \<and> (\<forall>b'. \<forall>t \<in> set (tasks (settle_drag k1 (Inl e) b')). task_id t = task_id T \<longrightarrow> status t = status T)"
proof -
  let ?T1 = "T\<lparr>status := S1\<rparr>"
  let ?ev1 = "drop_on (task_id T) S1"
  let ?ev2 = "drop_on (task_id T) S2"
  have ev1: "active_id ?ev1 = task_id T" "over_id ?ev1 = Some S1"
    and ev2: "active_id ?ev2 = task_id ?T1" "over_id ?ev2 = Some S2"
    by (simp_all add: drop_on_def)
  have first: "handleDragEnd ?ev1 b =
      (b\<lparr>activeTask := None,
         tasks := map (\<lambda>t. if task_id t = task_id T then t\<lparr>status := S1\<rparr> else t) (tasks b)\<rparr>,
       Await (UpdateTask (task_id T) (status_only S1))
             \<lparr>c_taskId = task_id T, c_newStatus = S1, c_task = T\<rparr>)"
    by (rule handleDragEnd_moves [OF assms(1,2) ev1 assms(3)])
  from first assms(5) have b1: "tasks b1 = map (\<lambda>t. if task_id t = task_id T then t\<lparr>status := S1\<rparr> else t) (tasks b)"
    and k1: "k1 = Await (UpdateTask (task_id T) (status_only S1)) \<lparr>c_taskId = task_id T, c_newStatus = S1, c_task = T\<rparr>"
    by auto
  have in1: "?T1 \<in> set (tasks b1)"
    using assms(1) by (simp only: b1 moved_task_in_set)
  have d1: "distinct (map task_id (tasks b1))"
    using assms(2) by (simp only: b1 task_id_set_status)
  have ne: "S2 \<noteq> status ?T1"
    using assms(4) by simp
  have second: "handleDragEnd ?ev2 b1 =
      (b1\<lparr>activeTask := None,
          tasks := map (\<lambda>t. if task_id t = task_id ?T1 then t\<lparr>status := S2\<rparr> else t) (tasks b1)\<rparr>,
       Await (UpdateTask (task_id ?T1) (status_only S2))
             \<lparr>c_taskId = task_id ?T1, c_newStatus = S2, c_task = ?T1\<rparr>)"
    by (rule handleDragEnd_moves [OF in1 d1 ev2 ne])
  from second assms(6) have b2: "tasks b2 = map (\<lambda>t. if task_id t = task_id T then t\<lparr>status := S2\<rparr> else t) (tasks b1)"
    and k2: "k2 = Await (UpdateTask (task_id T) (status_only S2)) \<lparr>c_taskId = task_id T, c_newStatus = S2, c_task = ?T1\<rparr>"
    by auto
  have found1: "find (\<lambda>t. task_id t = task_id T) (tasks b1) = Some ?T1"
    using find_by_id [OF d1 in1] by simp
  have shown: "find (\<lambda>t. task_id t = task_id T) (tasks b2) = Some (T\<lparr>status := S2\<rparr>)"
    by (simp only: b2 find_set_status found1) simp
  have undo2: "tasks (settle_drag k2 (Inl e) b2) = tasks b1"
  proof -
    have "tasks (settle_drag k2 (Inl e) b2)
            = map (\<lambda>t. if task_id t = task_id ?T1 then t\<lparr>status := status ?T1\<rparr> else t)
                (map (\<lambda>t. if task_id t = task_id ?T1 then t\<lparr>status := S2\<rparr> else t) (tasks b1))"
      by (simp only: k2 settle_drag_def suspended.case handleDragEnd_settled_failure b2)
         (simp del: map_map)
    then show ?thesis
      by (simp only: rollback_undoes_optimistic [OF d1 in1])
  qed
  have after2: "find (\<lambda>t. task_id t = task_id T) (tasks (settle_drag k2 (Inl e) b2)) = Some ?T1"
    by (simp only: undo2 found1)
  have any2: "\<forall>b'. \<forall>t \<in> set (tasks (settle_drag k2 (Inl e) b')). task_id t = task_id T \<longrightarrow> status t = S1"
    by (simp only: k2 settle_drag_def suspended.case handleDragEnd_settled_failure) auto
  have any1: "\<forall>b'. \<forall>t \<in> set (tasks (settle_drag k1 (Inl e) b')). task_id t = task_id T \<longrightarrow> status t = status T"
    by (simp only: k1 settle_drag_def suspended.case handleDragEnd_settled_failure) auto
  show ?thesis
    by (intro conjI) (rule k2, rule shown, rule undo2, rule after2, rule any2, rule any1)
qed

text \<open>
  The two drags on a board of two tasks: the first task goes from \<open>TO_DO\<close> to
  \<open>IN_PROGRESS\<close> to \<open>DONE\<close>, and the failure of the second call puts it in
  \<open>IN_PROGRESS\<close>.
\<close>

theorem overlapping_drag_rolls_back_to_intermediate_witness:
  "demo_task 1 TO_DO \<in> set (tasks (demo_board [demo_task 1 TO_DO, demo_task 2 DONE]))
   \<and> distinct (map task_id (tasks (demo_board [demo_task 1 TO_DO, demo_task 2 DONE])))
   \<and> IN_PROGRESS \<noteq> status (demo_task 1 TO_DO) \<and> DONE \<noteq> IN_PROGRESS
   \<and> map status (tasks (settle_drag
        (snd (handleDragEnd (drop_on 1 DONE)
               (fst (handleDragEnd (drop_on 1 IN_PROGRESS) (demo_board [demo_task 1 TO_DO, demo_task 2 DONE])))))
        server_error
        (fst (handleDragEnd (drop_on 1 DONE)
               (fst (handleDragEnd (drop_on 1 IN_PROGRESS) (demo_board [demo_task 1 TO_DO, demo_task 2 DONE])))))))
      = [IN_PROGRESS, DONE]"
  using overlapping_drag_rolls_back_to_intermediate
          [of "demo_task 1 TO_DO" "demo_board [demo_task 1 TO_DO, demo_task 2 DONE]" IN_PROGRESS DONE
              "fst (handleDragEnd (drop_on 1 IN_PROGRESS) (demo_board [demo_task 1 TO_DO, demo_task 2 DONE]))"
              "snd (handleDragEnd (drop_on 1 IN_PROGRESS) (demo_board [demo_task 1 TO_DO, demo_task 2 DONE]))"
              "fst (handleDragEnd (drop_on 1 DONE)
                 (fst (handleDragEnd (drop_on 1 IN_PROGRESS) (demo_board [demo_task 1 TO_DO, demo_task 2 DONE]))))"
              "snd (handleDragEnd (drop_on 1 DONE)
                 (fst (handleDragEnd (drop_on 1 IN_PROGRESS) (demo_board [demo_task 1 TO_DO, demo_task 2 DONE]))))"
              "AxiosError (Some 500)"]
  by (simp add: demo_task_def demo_board_def drop_on_def server_error_def handleDragEnd_def
        settle_drag_def)

text \<open>
  C2 as stated fails: a single task in \<open>TO_DO\<close> is dragged to \<open>IN_PROGRESS\<close> and,
  with that call pending, to \<open>DONE\<close>. When the second call fails the task shows
  \<open>IN_PROGRESS\<close>, not \<open>TO_DO\<close>; it still does when both calls fail in the order
  they were issued.
\<close>

theorem second_rollback_misses_original:
  "map status (tasks overlap_start) = [TO_DO]
   \<and> map status (tasks overlap_b1) = [IN_PROGRESS]
   \<and> map status (tasks overlap_b2) = [DONE]
   \<and> map status (tasks (settle_drag overlap_k2 server_error overlap_b2)) = [IN_PROGRESS]
   \<and> map status (tasks (settle_drag overlap_k2 server_error overlap_b2)) \<noteq> [TO_DO]
   \<and> map status (tasks (settle_drag overlap_k2 server_error
                          (settle_drag overlap_k1 server_error overlap_b2))) = [IN_PROGRESS]"
  by (simp add: overlap_start_def overlap_b1_def overlap_b2_def overlap_k1_def overlap_k2_def
        demo_task_def demo_board_def drop_on_def server_error_def handleDragEnd_def settle_drag_def)

text \<open>
  C8. Both steps of a status move, the optimistic update and what runs when the call
  settles, in \<open>handleDragEnd\<close> and in \<open>handleTaskMove\<close>, on any board: the collection
  keeps its length and order, every task keeps all its fields but \<open>status\<close>, and a task
  whose identifier is not the dragged one is untouched. When the identifiers of the
  collection are distinct, at most one position of it changes.
\<close>

theorem drag_changes_status_only:
  "frame_of_move (active_id event) (tasks b) (tasks (fst (handleDragEnd event b)))
   \<and> frame_of_move (c_taskId c) (tasks b2) (tasks (handleDragEnd_settled c r b2))
   \<and> frame_of_move taskId (tasks b) (tasks (fst (handleTaskMove taskId newStatus b)))
   \<and> frame_of_move (c_taskId c) (tasks b2) (tasks (handleTaskMove_settled c r b2))
   \<and> (distinct (map task_id (tasks b)) \<longrightarrow>
         length (changed_positions (tasks b) (tasks (fst (handleDragEnd event b)))) \<le> 1
         \<and> length (changed_positions (tasks b) (tasks (fst (handleTaskMove taskId newStatus b)))) \<le> 1)
   \<and> (distinct (map task_id (tasks b2)) \<longrightarrow>
         length (changed_positions (tasks b2) (tasks (handleDragEnd_settled c r b2))) \<le> 1
         \<and> length (changed_positions (tasks b2) (tasks (handleTaskMove_settled c r b2))) \<le> 1)"
  by (simp only: handleDragEnd_tasks handleTaskMove_tasks handleDragEnd_settled_tasks
        handleTaskMove_settled_tasks status_move_frame simp_thms)
     (blast intro: status_move_single)

theorem drag_changes_status_only_witness:
  "distinct (map task_id (tasks (demo_board [demo_task 1 TO_DO, demo_task 2 DONE])))
   \<and> frame_of_move 1 [demo_task 1 TO_DO, demo_task 2 DONE] [demo_task 1 DONE, demo_task 2 DONE]
   \<and> tasks (fst (handleDragEnd (drop_on 1 DONE) (demo_board [demo_task 1 TO_DO, demo_task 2 DONE])))
       = [demo_task 1 DONE, demo_task 2 DONE]
   \<and> changed_positions [demo_task 1 TO_DO, demo_task 2 DONE] [demo_task 1 DONE, demo_task 2 DONE] = [0]
   \<and> length (changed_positions (tasks (demo_board [demo_task 1 TO_DO, demo_task 2 DONE]))
        (tasks (fst (handleDragEnd (drop_on 1 DONE) (demo_board [demo_task 1 TO_DO, demo_task 2 DONE]))))) \<le> 1"
  using drag_changes_status_only
          [of "drop_on 1 DONE" "demo_board [demo_task 1 TO_DO, demo_task 2 DONE]"
              "\<lparr>c_taskId = 1, c_newStatus = DONE, c_task = demo_task 1 TO_DO\<rparr>"
              "demo_board [demo_task 1 DONE, demo_task 2 DONE]" server_error 1 DONE]
  by (simp add: demo_task_def demo_board_def drop_on_def server_error_def handleDragEnd_def
        frame_of_move_def same_but_status_def changed_positions_def)

text \<open>
  C10. For every task identifier, target status and board, a drop of the task over the
  column of that status runs \<open>handleDragEnd\<close> to the same outcome as \<open>handleTaskMove\<close>:
  the same test for returning at once (task absent, or already in the target status), in
  which case the collection is left alone; otherwise the same optimistic collection, the
  same \<open>updateTask\<close> call and the same captured task; and the same code once the call
  settles, so the same rollback. The one difference is outside the four points of the
  claim: \<open>handleDragEnd\<close> first clears the drag overlay \<open>activeTask\<close>.
\<close>

theorem move_paths_equivalent:
  "handleDragEnd \<lparr>active_id = taskId, over_id = Some newStatus\<rparr> b =
     (fst (handleTaskMove taskId newStatus b)\<lparr>activeTask := None\<rparr>,
      snd (handleTaskMove taskId newStatus b))
   \<and> tasks (fst (handleDragEnd \<lparr>active_id = taskId, over_id = Some newStatus\<rparr> b))
       = tasks (fst (handleTaskMove taskId newStatus b))
   \<and> error (fst (handleDragEnd \<lparr>active_id = taskId, over_id = Some newStatus\<rparr> b))
       = error (fst (handleTaskMove taskId newStatus b))
   \<and> snd (handleDragEnd \<lparr>active_id = taskId, over_id = Some newStatus\<rparr> b)
       = snd (handleTaskMove taskId newStatus b)
   \<and> (snd (handleTaskMove taskId newStatus b) = Returned)
       = (case find (\<lambda>t. task_id t = taskId) (tasks b) of
            None \<Rightarrow> True | Some task \<Rightarrow> status task = newStatus)
   \<and> (if snd (handleTaskMove taskId newStatus b) = Returned
       then fst (handleTaskMove taskId newStatus b) = b
            \<and> fst (handleDragEnd \<lparr>active_id = taskId, over_id = Some newStatus\<rparr> b)
                = b\<lparr>activeTask := None\<rparr>
       else tasks (fst (handleTaskMove taskId newStatus b))
              = map (\<lambda>t. if task_id t = taskId then t\<lparr>status := newStatus\<rparr> else t) (tasks b)
            \<and> snd (handleTaskMove taskId newStatus b)
                = Await (UpdateTask taskId (status_only newStatus))
                    \<lparr>c_taskId = taskId, c_newStatus = newStatus,
                     c_task = the (find (\<lambda>t. task_id t = taskId) (tasks b))\<rparr>)
   \<and> handleDragEnd_settled c r b2 = handleTaskMove_settled c r b2
   \<and> settle_drag k r b2 = settle_move k r b2"
  by (simp add: handleDragEnd_def handleTaskMove_def Let_def settled_same settle_same
        split: option.splits)

theorem move_paths_equivalent_witness:
  "snd (handleTaskMove 1 DONE (demo_board [demo_task 1 TO_DO, demo_task 2 DONE])) \<noteq> Returned
   \<and> snd (handleTaskMove 2 DONE (demo_board [demo_task 1 TO_DO, demo_task 2 DONE])) = Returned
   \<and> tasks (fst (handleDragEnd \<lparr>active_id = 1, over_id = Some DONE\<rparr>
                    (demo_board [demo_task 1 TO_DO, demo_task 2 DONE])))
       = [demo_task 1 DONE, demo_task 2 DONE]
   \<and> tasks (fst (handleTaskMove 1 DONE (demo_board [demo_task 1 TO_DO, demo_task 2 DONE])))
       = [demo_task 1 DONE, demo_task 2 DONE]
   \<and> fst (handleTaskMove 2 DONE (demo_board [demo_task 1 TO_DO, demo_task 2 DONE]))
       = demo_board [demo_task 1 TO_DO, demo_task 2 DONE]"
  using move_paths_equivalent [of 1 DONE "demo_board [demo_task 1 TO_DO, demo_task 2 DONE]"]
        move_paths_equivalent [of 2 DONE "demo_board [demo_task 1 TO_DO, demo_task 2 DONE]"]
  by (simp add: demo_task_def demo_board_def handleTaskMove_def)

section \<open>Deleting a task and loading the collection\<close>

text \<open>
  C9. \<open>handleTaskDelete\<close> changes nothing before the server has answered: it only
  issues the delete (when the user confirms). If the call fails the collection is the one
  the failure found and the error message is set, which the component shows once it is
  not loading; if the call succeeds the tasks with that identifier are filtered out.
\<close>

theorem delete_waits_for_server:
  "fst (handleTaskDelete confirmed taskId b) = b
   \<and> snd (handleTaskDelete True taskId b) = Await (DeleteTask taskId) taskId
   \<and> snd (handleTaskDelete False taskId b) = Returned
   \<and> tasks (handleTaskDelete_settled taskId (Inl e) b2) = tasks b2
   \<and> error (handleTaskDelete_settled taskId (Inl e) b2) = err_delete
   \<and> render (handleTaskDelete_settled taskId (Inl e) b2)
       = (if loading b2 then Spinner else ErrorPanel err_delete)
   \<and> tasks (handleTaskDelete_settled taskId (Inr ()) b2)
       = filter (\<lambda>t. task_id t \<noteq> taskId) (tasks b2)
   \<and> error (handleTaskDelete_settled taskId (Inr ()) b2) = error b2"
  by (simp add: handleTaskDelete_def render_def err_delete_def)

theorem delete_waits_for_server_witness:
  "tasks (fst (handleTaskDelete True 1 (demo_board [demo_task 1 TO_DO, demo_task 2 DONE])))
     = [demo_task 1 TO_DO, demo_task 2 DONE]
   \<and> tasks (handleTaskDelete_settled 1 (Inl (AxiosError (Some 500)))
              (demo_board [demo_task 1 TO_DO, demo_task 2 DONE]))
       = [demo_task 1 TO_DO, demo_task 2 DONE]
   \<and> render (handleTaskDelete_settled 1 (Inl (AxiosError (Some 500)))
              (demo_board [demo_task 1 TO_DO, demo_task 2 DONE])) = ErrorPanel err_delete
   \<and> tasks (handleTaskDelete_settled 1 (Inr ())
              (demo_board [demo_task 1 TO_DO, demo_task 2 DONE])) = [demo_task 2 DONE]"
  using delete_waits_for_server
          [of True 1 "demo_board [demo_task 1 TO_DO, demo_task 2 DONE]" "AxiosError (Some 500)"
              "demo_board [demo_task 1 TO_DO, demo_task 2 DONE]"]
  by (simp add: demo_task_def demo_board_def)

text \<open>
  C7. When the fetch fails the collection is empty whatever it held, the error message is
  set and the component renders the error panel, whose button runs \<open>fetchTasks\<close> again.
  When the fetch succeeds the collection is the fetched list, with nothing kept of the
  old one. The last three conjuncts state the same for a whole load, from the HTTP
  outcome through \<open>getProjectTasks\<close>.
\<close>

theorem failed_fetch_empties_collection:
  "tasks (fetchTasks_settled (Inl e) b2) = []
   \<and> error (fetchTasks_settled (Inl e) b2) = err_load
   \<and> render (fetchTasks_settled (Inl e) b2) = ErrorPanel err_load
   \<and> tasks (fetchTasks_settled (Inr (JArr xs)) b2) = xs
   \<and> snd (fetchTasks projectId b) = Await (GetProjectTasks projectId) ()
   \<and> tasks (load_tasks projectId r b) = (case getProjectTasks r of Inl e \<Rightarrow> [] | Inr ys \<Rightarrow> ys)
   \<and> error (load_tasks projectId r b) = (case getProjectTasks r of Inl e \<Rightarrow> err_load | Inr ys \<Rightarrow> [])
   \<and> render (load_tasks projectId r b)
       = (case getProjectTasks r of
            Inl e \<Rightarrow> ErrorPanel err_load
          | Inr ys \<Rightarrow> Columns (map (\<lambda>s. (s, filter (\<lambda>t. status t = s) ys)) statuses))"
  by (simp add: load_tasks_def fetchTasks_def render_def err_load_def split: sum.splits)

theorem failed_fetch_empties_collection_witness:
  "tasks (load_tasks 7 (Inl (AxiosError None)) (demo_board [demo_task 1 TO_DO, demo_task 2 DONE])) = []
   \<and> render (load_tasks 7 (Inl (AxiosError None)) (demo_board [demo_task 1 TO_DO, demo_task 2 DONE]))
       = ErrorPanel err_load
   \<and> tasks (load_tasks 7 (Inr (JObj [(''count'', JNum 1), (''results'', JArr [demo_task 5 DONE])]))
              (demo_board [demo_task 1 TO_DO, demo_task 2 DONE])) = [demo_task 5 DONE]"
  using failed_fetch_empties_collection
          [of "AxiosError None" "demo_board [demo_task 1 TO_DO, demo_task 2 DONE]" "[]" 7
              "demo_board [demo_task 1 TO_DO, demo_task 2 DONE]" "Inl (AxiosError None)"]
  by (simp add: load_tasks_def fetchTasks_def getProjectTasks_def envelope_has_def demo_board_def)

section \<open>The API client\<close>

text \<open>
  C6. On an array, on an object and on \<open>null\<close> the normalisation returns what the
  claim says (\<open>normalisation_of_lists\<close>). On a body that is a non-empty string, a
  non-zero number or \<open>true\<close> it does not return the empty list: the test
  \<open>'results' in response.data\<close> raises a \<open>TypeError\<close>, for instance when a proxy
  answers 200 with an HTML page.
\<close>

theorem string_body_raises:
  "getProjectTasks (Inr (JStr ''<!DOCTYPE html>'')) = Inl TypeError
   \<and> getProjects (Inr (JStr ''<!DOCTYPE html>'')) = Inl TypeError
   \<and> getProjectTasks (Inr (JNum 42)) = Inl TypeError
   \<and> getProjects (Inr (JBool True)) = Inl TypeError"
  by (simp add: getProjectTasks_def getProjects_def envelope_has_def)

text \<open>
  C4. Whatever the server answers, one call of the client instance puts the request on
  the wire once or twice, never more, and posts at most one refresh. A request whose
  config is already marked \<open>_retry\<close> is transmitted exactly once, and a 401 on it is
  rejected to the caller as it is, with no refresh and no further transmission.
\<close>

theorem request_retried_at_most_once:
  "transmissions (sent w) + 1 \<le> transmissions (sent (snd (client srv config w)))
   \<and> transmissions (sent (snd (client srv config w))) \<le> transmissions (sent w) + 2
   \<and> refreshes (sent (snd (client srv config w))) \<le> refreshes (sent w) + 1
   \<and> (retry config \<longrightarrow>
        sent (snd (client srv config w)) = sent w @ [Through_client (request_interceptor w config)]
        \<and> (fst (transmit srv (request_interceptor w config) w) = Status 401 body \<longrightarrow>
             client srv config w
               = (Inl (AxiosError (Some 401)), snd (transmit srv (request_interceptor w config) w))))"
proof -
  obtain extra where e: "sent (snd (client srv config w)) = sent w @ extra"
    and shape: "extra = [Through_client (request_interceptor w config)]
        \<or> \<not> retry config
          \<and> (\<exists>rt. extra = [Through_client (request_interceptor w config), Refresh_post rt]
                \<or> (\<exists>c2. retry c2
                      \<and> extra = [Through_client (request_interceptor w config), Refresh_post rt,
                                  Through_client c2]))"
    using client_sent [of srv config w] by blast
  from shape have "transmissions extra = 1 \<or> transmissions extra = 2" and "refreshes extra \<le> 1"
    by (auto simp: transmissions_def refreshes_def)
  with e have counts: "transmissions (sent w) + 1 \<le> transmissions (sent (snd (client srv config w)))"
    "transmissions (sent (snd (client srv config w))) \<le> transmissions (sent w) + 2"
    "refreshes (sent (snd (client srv config w))) \<le> refreshes (sent w) + 1"
    by (auto simp: transmissions_def refreshes_def)
  have marked: "client srv config w
               = (Inl (AxiosError (Some 401)), snd (transmit srv (request_interceptor w config) w))"
    if "retry config" and "fst (transmit srv (request_interceptor w config) w) = Status 401 body"
    using that by (cases "transmit srv (request_interceptor w config) w")
      (simp add: client_marked resolves_def)
  show ?thesis
    using counts marked by (simp add: client_marked_sent)
qed

theorem request_retried_at_most_once_witness:
  "retry (demo_config\<lparr>retry := True\<rparr>)
   \<and> fst (transmit rejects_renewed
            (request_interceptor (demo_world (Some ''fresh'') (Some ''old'')) (demo_config\<lparr>retry := True\<rparr>))
            (demo_world (Some ''fresh'') (Some ''old''))) = Status 401 []
   \<and> fst (client rejects_renewed (demo_config\<lparr>retry := True\<rparr>) (demo_world (Some ''fresh'') (Some ''old'')))
       = Inl (AxiosError (Some 401))
   \<and> transmissions (sent (snd (client rejects_renewed (demo_config\<lparr>retry := True\<rparr>)
                                  (demo_world (Some ''fresh'') (Some ''old''))))) = 1
   \<and> transmissions (sent (snd (client rejects_renewed demo_config
                                  (demo_world (Some ''stale'') (Some ''old''))))) = 2
   \<and> fst (client expired_access demo_config (demo_world (Some ''stale'') (Some ''old''))) = Inr ''ok''
   \<and> transmissions (sent (snd (client expired_access demo_config
                                  (demo_world (Some ''stale'') (Some ''old''))))) = 2"
  using request_retried_at_most_once
          [of "demo_world (Some ''fresh'') (Some ''old'')" rejects_renewed "demo_config\<lparr>retry := True\<rparr>" "[]"]
        request_retried_at_most_once
          [of "demo_world (Some ''stale'') (Some ''old'')" rejects_renewed demo_config "[]"]
  by (simp add: client_rejects_renewed client_expired_access transmissions_def)
     (simp add: rejects_renewed_def demo_config_def demo_world_def request_interceptor_def transmit_def)

text \<open>
  C5, as the code has it. First conjunct: a request that is not yet marked gets a 401,
  a refresh credential is stored, and the refresh post fails; then the interceptor
  removes both credentials, sends the browser to \<open>/login\<close> and rejects with the 401.
  Second conjunct: when \<open>apiClient.refreshToken\<close> fails, for whatever reason,
  \<open>refreshToken\<close> of the authentication context removes both credentials, forgets the
  user and rethrows. Third conjunct: when no refresh credential is stored (or an empty
  one), the interceptor attempts no refresh; it rejects with the 401 and leaves the
  credentials and the location as they were.
\<close>

theorem failed_refresh_clears_credentials:
  "(\<not> retry config \<and> refresh_token w = Some rt \<and> rt \<noteq> []
      \<and> fst (transmit srv (request_interceptor w config) w) = Status 401 body
      \<and> refresh_failed (fst (post_refresh srv rt (snd (transmit srv (request_interceptor w config) w))))
    \<longrightarrow> client srv config w
          = (Inl (AxiosError (Some 401)),
             clear_and_redirect (snd (post_refresh srv rt (snd (transmit srv (request_interceptor w config) w)))))
        \<and> access_token (snd (client srv config w)) = None
        \<and> refresh_token (snd (client srv config w)) = None
        \<and> location (snd (client srv config w)) = ''/login'')
   \<and> (fst (apiClient_refreshToken srv2 w0) = Inl e
    \<longrightarrow> fst (refreshToken srv2 (a, w0)) = Inl e
        \<and> access_token (snd (snd (refreshToken srv2 (a, w0)))) = None
        \<and> refresh_token (snd (snd (refreshToken srv2 (a, w0)))) = None
        \<and> user (fst (snd (refreshToken srv2 (a, w0)))) = None
        \<and> \<not> isAuthenticated (fst (snd (refreshToken srv2 (a, w0)))))
   \<and> ((refresh_token w = None \<or> refresh_token w = Some [])
      \<and> fst (transmit srv (request_interceptor w config) w) = Status 401 body
    \<longrightarrow> client srv config w
          = (Inl (AxiosError (Some 401)), snd (transmit srv (request_interceptor w config) w))
        \<and> access_token (snd (client srv config w)) = access_token w
        \<and> refresh_token (snd (client srv config w)) = refresh_token w
        \<and> location (snd (client srv config w)) = location w)"
proof (intro conjI impI)
  let ?c1 = "request_interceptor w config"
  obtain ans w1 where t: "transmit srv ?c1 w = (ans, w1)" by (cases "transmit srv ?c1 w")
  note tw = transmit_world [OF t]
  {
    assume h: "\<not> retry config \<and> refresh_token w = Some rt \<and> rt \<noteq> []
      \<and> fst (transmit srv ?c1 w) = Status 401 body
      \<and> refresh_failed (fst (post_refresh srv rt (snd (transmit srv ?c1 w))))"
    then have ans: "ans = Status 401 body" using t by simp
    have "on_response_error srv (Some 401) ?c1 w1 = Reject (clear_and_redirect (snd (post_refresh srv rt w1)))"
      using h t tw by (intro on_response_error_refresh_failed) (simp_all add: retry_request_interceptor)
    then show c: "client srv config w
          = (Inl (AxiosError (Some 401)),
             clear_and_redirect (snd (post_refresh srv rt (snd (transmit srv ?c1 w)))))"
      using t ans by (simp add: client_step [OF t] resolves_def)
    show "access_token (snd (client srv config w)) = None"
      "refresh_token (snd (client srv config w)) = None"
      "location (snd (client srv config w)) = ''/login''"
      by (simp_all add: c clear_and_redirect_def)
  }
  {
    assume h: "(refresh_token w = None \<or> refresh_token w = Some [])
      \<and> fst (transmit srv ?c1 w) = Status 401 body"
    then have ans: "ans = Status 401 body" using t by simp
    have "on_response_error srv (Some 401) ?c1 w1 = Reject w1"
      using h tw by (intro on_response_error_no_refresh_token) simp
    then show c: "client srv config w = (Inl (AxiosError (Some 401)), snd (transmit srv ?c1 w))"
      using t ans by (simp add: client_step [OF t] resolves_def)
    show "access_token (snd (client srv config w)) = access_token w"
      "refresh_token (snd (client srv config w)) = refresh_token w"
      "location (snd (client srv config w)) = location w"
      using tw by (simp_all add: c t)
  }
  {
    assume h: "fst (apiClient_refreshToken srv2 w0) = Inl e"
    show "fst (refreshToken srv2 (a, w0)) = Inl e"
      "access_token (snd (snd (refreshToken srv2 (a, w0)))) = None"
      "refresh_token (snd (snd (refreshToken srv2 (a, w0)))) = None"
      "user (fst (snd (refreshToken srv2 (a, w0)))) = None"
      "\<not> isAuthenticated (fst (snd (refreshToken srv2 (a, w0))))"
      by (simp_all add: refreshToken_failure [OF h])
  }
qed

theorem failed_refresh_clears_credentials_witness:
  "\<not> retry demo_config
   \<and> refresh_token (demo_world (Some ''stale'') (Some ''old'')) = Some ''old'' \<and> ''old'' \<noteq> []
   \<and> fst (transmit always_401
            (request_interceptor (demo_world (Some ''stale'') (Some ''old'')) demo_config)
            (demo_world (Some ''stale'') (Some ''old''))) = Status 401 []
   \<and> refresh_failed (fst (post_refresh always_401 ''old''
        (snd (transmit always_401
               (request_interceptor (demo_world (Some ''stale'') (Some ''old'')) demo_config)
               (demo_world (Some ''stale'') (Some ''old''))))))
   \<and> access_token (snd (client always_401 demo_config (demo_world (Some ''stale'') (Some ''old'')))) = None
   \<and> refresh_token (snd (client always_401 demo_config (demo_world (Some ''stale'') (Some ''old'')))) = None
   \<and> location (snd (client always_401 demo_config (demo_world (Some ''stale'') (Some ''old'')))) = ''/login''"
  using failed_refresh_clears_credentials
          [of demo_config "demo_world (Some ''stale'') (Some ''old'')" "''old''" always_401 "[]"]
  by (simp add: client_always_401)
     (simp add: always_401_def demo_config_def demo_world_def request_interceptor_def transmit_def
        post_refresh_def resolves_def)

text \<open>
  C5 as stated fails in the interceptor when the refresh credential is absent: the
  request is rejected with its 401, no refresh is posted, and the access credential is
  still in storage, the browser still on the same page.
\<close>

theorem absent_refresh_token_keeps_credentials:
  "refresh_token (demo_world (Some ''stale'') None) = None
   \<and> fst (client always_401 demo_config (demo_world (Some ''stale'') None)) = Inl (AxiosError (Some 401))
   \<and> access_token (snd (client always_401 demo_config (demo_world (Some ''stale'') None))) = Some ''stale''
   \<and> location (snd (client always_401 demo_config (demo_world (Some ''stale'') None))) = ''/dashboard''
   \<and> refreshes (sent (snd (client always_401 demo_config (demo_world (Some ''stale'') None)))) = 0"
  by (simp add: client_no_refresh_token refreshes_def) (simp add: demo_world_def)

section \<open>Permissions\<close>

text \<open>
  C3, on the evaluator written after the specification. Updating a project is allowed
  exactly for staff, superusers and the owner. An actor who is a member, not the owner
  and not an administrator is denied the update and the delete of the project, and is
  allowed to read it and to create, read, update and delete its tasks.
\<close>

theorem member_cannot_change_project:
  "(permission_evaluator a (ProjectRes p) Update = ALLOW)
     = (actor_is_staff a \<or> actor_is_superuser a \<or> actor_id a = acl_owner p)
   \<and> (actor_id a \<in> acl_members p \<and> actor_id a \<noteq> acl_owner p
        \<and> \<not> actor_is_staff a \<and> \<not> actor_is_superuser a
      \<longrightarrow> permission_evaluator a (ProjectRes p) Update = DENY
          \<and> permission_evaluator a (ProjectRes p) Delete = DENY
          \<and> permission_evaluator a (ProjectRes p) Read = ALLOW
          \<and> permission_evaluator a (TaskRes p) Create = ALLOW
          \<and> permission_evaluator a (TaskRes p) Read = ALLOW
          \<and> permission_evaluator a (TaskRes p) Update = ALLOW
          \<and> permission_evaluator a (TaskRes p) Delete = ALLOW)"
  by (auto simp: allow_iff_def is_owner_def is_member_def)

theorem member_cannot_change_project_witness:
  "(3::int) \<in> acl_members \<lparr>acl_owner = 1, acl_members = {2, 3}\<rparr>
   \<and> actor_id \<lparr>actor_id = 3, actor_is_staff = False, actor_is_superuser = False\<rparr>
       \<noteq> acl_owner \<lparr>acl_owner = 1, acl_members = {2, 3}\<rparr>
   \<and> permission_evaluator \<lparr>actor_id = 3, actor_is_staff = False, actor_is_superuser = False\<rparr>
        (ProjectRes \<lparr>acl_owner = 1, acl_members = {2, 3}\<rparr>) Delete = DENY
   \<and> permission_evaluator \<lparr>actor_id = 3, actor_is_staff = False, actor_is_superuser = False\<rparr>
        (ProjectRes \<lparr>acl_owner = 1, acl_members = {2, 3}\<rparr>) Read = ALLOW
   \<and> permission_evaluator \<lparr>actor_id = 3, actor_is_staff = False, actor_is_superuser = False\<rparr>
        (TaskRes \<lparr>acl_owner = 1, acl_members = {2, 3}\<rparr>) Update = ALLOW"
  using member_cannot_change_project
          [of "\<lparr>actor_id = 3, actor_is_staff = False, actor_is_superuser = False\<rparr>"
              "\<lparr>acl_owner = 1, acl_members = {2, 3}\<rparr>"]
  by simp

end
